theory Spec2Isabelle
  imports Complex_Main
begin

section \<open>Python values\<close>

text \<open>
  A Python \<open>str\<close> is a sequence of Unicode code points; \<open>len\<close> and slicing count code
  points. It is modelled as a list of code-point numbers. \<open>ustr\<close> turns an ASCII literal
  into such a list.
\<close>

type_synonym pystr = "nat list"

definition ustr :: "string \<Rightarrow> pystr" where
  "ustr s = map of_char s"

text \<open>\<open>d.get(k, default)\<close> on a dict literal, kept as the list of its items.\<close>

definition dict_get :: "('k \<times> 'v) list \<Rightarrow> 'k \<Rightarrow> 'v \<Rightarrow> 'v" where
  "dict_get d k dflt = (case map_of d k of None \<Rightarrow> dflt | Some v \<Rightarrow> v)"


section \<open>The time estimate\<close>

text \<open>
  \<^verbatim>\<open>
  def estimate_time(file_size_mb, model_size):
      base_time_per_gb = {"tiny": 5, "base": 10, "small": 20,
                          "medium": 30, "large": 45, "large-v3": 50}
      file_size_gb = file_size_mb / 1024
      est_minutes = base_time_per_gb.get(model_size, 30) * file_size_gb
      return max(5, est_minutes)
  \<close>
  The table holds Python ints; \<open>/\<close> is true division, so the size in gigabytes and the
  estimate are floats. Floats are modelled as real numbers: rounding, infinities and NaN
  are outside the model. \<open>max(5, x)\<close> gives the int \<open>5\<close> or the float \<open>x\<close>; both are read
  as reals, as Python's \<open>==\<close> and \<open>\<le>\<close> compare them.
\<close>

definition base_time_per_gb :: "(pystr \<times> int) list" where
  "base_time_per_gb =
     [(ustr ''tiny'', 5), (ustr ''base'', 10), (ustr ''small'', 20),
      (ustr ''medium'', 30), (ustr ''large'', 45), (ustr ''large-v3'', 50)]"

definition estimate_time :: "real \<Rightarrow> pystr \<Rightarrow> real" where
  "estimate_time file_size_mb model_size =
     (let file_size_gb = file_size_mb / 1024;
          est_minutes = real_of_int (dict_get base_time_per_gb model_size 30) * file_size_gb
      in max 5 est_minutes)"


section \<open>Library functions the script calls\<close>

subsection \<open>\<open>str.lower\<close>\<close>

text \<open>
  The ASCII letters \<open>A\<close> to \<open>Z\<close> are mapped to \<open>a\<close> to \<open>z\<close>; every other code point is
  kept. Python also lowers non-ASCII letters, which this model leaves alone; none of them
  has \<open>y\<close> (U+0079) as its lower case, and the script only compares the result with
  \<open>'y'\<close>.
\<close>

definition lower_cp :: "nat \<Rightarrow> nat" where
  "lower_cp c = (if 65 \<le> c \<and> c \<le> 90 then c + 32 else c)"

definition lower :: "pystr \<Rightarrow> pystr" where
  "lower s = map lower_cp s"

subsection \<open>\<open>os.path\<close> on POSIX\<close>

definition sep :: nat where
  "sep = 47"

definition extsep :: nat where
  "extsep = 46"

text \<open>\<open>p.rfind(c)\<close> for a single character: the last index of \<open>c\<close>, or \<open>-1\<close>.\<close>

fun rfind :: "pystr \<Rightarrow> nat \<Rightarrow> int" where
  "rfind [] c = - 1"
| "rfind (x # xs) c =
     (let r = rfind xs c in if 0 \<le> r then r + 1 else if x = c then 0 else - 1)"

text \<open>\<open>basename(p)\<close> is \<open>p[p.rfind('/') + 1:]\<close>.\<close>

definition basename :: "pystr \<Rightarrow> pystr" where
  "basename p = drop (nat (rfind p sep + 1)) p"

text \<open>
  \<open>splitext(p)\<close> cuts at the last dot, when that dot comes after the last separator and
  some character between the separator and the dot is not a dot itself; otherwise the
  extension is empty.
\<close>

definition splitext :: "pystr \<Rightarrow> pystr \<times> pystr" where
  "splitext p =
     (let sepIndex = rfind p sep; dotIndex = rfind p extsep
      in if sepIndex < dotIndex \<and>
            list_ex (\<lambda>i. p ! i \<noteq> extsep) [nat (sepIndex + 1)..<nat dotIndex]
         then (take (nat dotIndex) p, drop (nat dotIndex) p)
         else (p, []))"

text \<open>\<open>join(a, b)\<close> with two arguments.\<close>

definition join :: "pystr \<Rightarrow> pystr \<Rightarrow> pystr" where
  "join a b =
     (if b \<noteq> [] \<and> hd b = sep then b
      else if a = [] \<or> last a = sep then a @ b
      else a @ [sep] @ b)"

subsection \<open>\<open>time.strftime\<close>\<close>

text \<open>
  The broken-down local time that \<open>time.strftime(format)\<close> formats, and the directives
  the script uses: \<open>%Y\<close> is the year in decimal, \<open>%m\<close>, \<open>%d\<close>, \<open>%H\<close>, \<open>%M\<close> and \<open>%S\<close> are
  two digits, zero-padded. Any other character of the format is copied.
\<close>

record struct_time =
  tm_year :: nat
  tm_mon :: nat
  tm_mday :: nat
  tm_hour :: nat
  tm_min :: nat
  tm_sec :: nat

fun decimal :: "nat \<Rightarrow> pystr" where
  "decimal n = (if n < 10 then [48 + n] else decimal (n div 10) @ [48 + n mod 10])"

declare decimal.simps [simp del]

definition pad2 :: "nat \<Rightarrow> pystr" where
  "pad2 n = (if n < 10 then [48, 48 + n] else decimal n)"

definition directive :: "nat \<Rightarrow> struct_time \<Rightarrow> pystr" where
  "directive d tm =
     (if d = 89 then decimal (tm_year tm)
      else if d = 109 then pad2 (tm_mon tm)
      else if d = 100 then pad2 (tm_mday tm)
      else if d = 72 then pad2 (tm_hour tm)
      else if d = 77 then pad2 (tm_min tm)
      else if d = 83 then pad2 (tm_sec tm)
      else [37, d])"

fun strftime :: "pystr \<Rightarrow> struct_time \<Rightarrow> pystr" where
  "strftime [] tm = []"
| "strftime [c] tm = [c]"
| "strftime (c # d # fmt) tm =
     (if c = 37 then directive d tm @ strftime fmt tm else c # strftime (d # fmt) tm)"

text \<open>The ranges the Python documentation gives for a local time, with a four-digit year.\<close>

definition valid_tm :: "struct_time \<Rightarrow> bool" where
  "valid_tm tm \<longleftrightarrow>
     1000 \<le> tm_year tm \<and> tm_year tm \<le> 9999 \<and>
     1 \<le> tm_mon tm \<and> tm_mon tm \<le> 12 \<and>
     1 \<le> tm_mday tm \<and> tm_mday tm \<le> 31 \<and>
     tm_hour tm \<le> 23 \<and> tm_min tm \<le> 59 \<and> tm_sec tm \<le> 61"

text \<open>A string of the shape \<open>YYYYMMDD_HHMMSS\<close>: eight digits, an underscore, six digits.\<close>

definition is_digit :: "nat \<Rightarrow> bool" where
  "is_digit c \<longleftrightarrow> 48 \<le> c \<and> c \<le> 57"

definition well_formed_timestamp :: "pystr \<Rightarrow> bool" where
  "well_formed_timestamp ts \<longleftrightarrow>
     length ts = 15 \<and> list_all is_digit (take 8 ts) \<and> ts ! 8 = 95 \<and>
     list_all is_digit (drop 9 ts)"


section \<open>The world the script runs in\<close>

text \<open>
  The run configuration, as \<open>parser.parse_args()\<close> returns it. The model starts after
  the arguments were parsed.
\<close>

record args =
  input :: pystr
  model :: pystr
  language :: pystr
  output_dir :: pystr

text \<open>The model identifiers the parser accepts for \<open>--model\<close>.\<close>

definition get_available_models :: "pystr list" where
  "get_available_models =
     [ustr ''tiny'', ustr ''base'', ustr ''small'', ustr ''medium'', ustr ''large'',
      ustr ''large-v3'']"

text \<open>
  Exceptions are values. \<open>ExternalError\<close> stands for whatever the operating system, the
  terminal or the speech-recognition library raises, by the name of its class.
\<close>

datatype exn = FileExistsError | ZeroDivisionError | ExternalError string

text \<open>
  The file system maps a path to what is there. Paths are compared as strings; the
  intermediate directories that \<open>os.makedirs\<close> creates are not tracked.
\<close>

datatype node = Dir | File

type_synonym filesystem = "pystr \<rightharpoonup> node"

text \<open>What \<open>model.transcribe\<close> returns, and the arguments of the call at lines 86 to 93.\<close>

record result =
  result_text :: pystr
  result_segments :: "(real \<times> real \<times> pystr) list"

record transcribe_call =
  audio :: pystr
  kw_language :: pystr
  kw_verbose :: bool
  kw_fp16 :: bool
  kw_task :: pystr
  kw_initial_prompt :: pystr

text \<open>
  Everything the script asks of its surroundings: the file system at the start, the
  answers of the operating system, the line the operator types, the successive readings
  of \<open>time.time()\<close>, the local time at the call of \<open>time.strftime\<close>, and the
  speech-recognition library (\<open>'m\<close> is its model object): whether loading and
  transcribing succeed, and whether the subtitle writer fails while it writes a result.

  \<open>float_round\<close> is the rounding of the platform's float arithmetic: an operation on
  floats returns \<open>float_round\<close> of the exact result. It is used where a float decides
  what the script does (the divisor of line 127). The size and the estimate that the
  banner prints are computed over the reals, as in \<open>estimate_time\<close>; they decide nothing.
\<close>

record 'm env =
  fs0 :: filesystem
  mkdir_error :: "pystr \<Rightarrow> exn option"
  getsize :: "pystr \<Rightarrow> exn + nat"
  stdin :: "exn + pystr"
  clock :: "nat \<Rightarrow> real"
  localtime :: struct_time
  load_model :: "pystr \<Rightarrow> exn + 'm"
  transcribe :: "'m \<Rightarrow> transcribe_call \<Rightarrow> exn + result"
  writer_error :: "result \<Rightarrow> exn option"
  write_error :: "pystr \<Rightarrow> exn option"
  float_round :: "real \<Rightarrow> real"

text \<open>\<open>os.path.exists(p)\<close>.\<close>

definition path_exists :: "filesystem \<Rightarrow> pystr \<Rightarrow> bool" where
  "path_exists fs p \<longleftrightarrow> fs p \<noteq> None"

text \<open>
  \<open>os.makedirs(p, exist_ok=True)\<close>: nothing happens when \<open>p\<close> is a directory already,
  \<open>FileExistsError\<close> when \<open>p\<close> is something else, and otherwise the directory is created
  unless the operating system refuses.
\<close>

definition makedirs :: "'m env \<Rightarrow> pystr \<Rightarrow> filesystem \<Rightarrow> exn + filesystem" where
  "makedirs w p fs =
     (case fs p of
        Some Dir \<Rightarrow> Inr fs
      | Some File \<Rightarrow> Inl FileExistsError
      | None \<Rightarrow> (case mkdir_error w p of Some e \<Rightarrow> Inl e | None \<Rightarrow> Inr (fs(p \<mapsto> Dir))))"

text \<open>\<open>with open(p, "w", encoding="utf-8") as f: f.write(s)\<close>.\<close>

definition write_text :: "'m env \<Rightarrow> pystr \<Rightarrow> filesystem \<Rightarrow> exn + filesystem" where
  "write_text w p fs =
     (case fs p of
        Some Dir \<Rightarrow> Inl (ExternalError ''IsADirectoryError'')
      | _ \<Rightarrow> (case write_error w p of Some e \<Rightarrow> Inl e | None \<Rightarrow> Inr (fs(p \<mapsto> File))))"

text \<open>
  The writer that \<open>get_writer(extension, output_dir)\<close> returns, called as
  \<open>writer(result, audio_path)\<close>. The library's \<open>ResultWriter\<close> does not open the path it
  is given: it takes the base name of that path without its extension, and opens
  \<open>join(output_dir, audio_basename + "." + extension)\<close> for writing. A failure leaves the
  file system of the model as it was.
\<close>

definition result_writer ::
  "'m env \<Rightarrow> pystr \<Rightarrow> pystr \<Rightarrow> result \<Rightarrow> pystr \<Rightarrow> filesystem \<Rightarrow> exn + filesystem" where
  "result_writer w extension dir res audio_path fs =
     (let audio_basename = fst (splitext (basename audio_path));
          output_path = join dir (audio_basename @ ustr ''.'' @ extension)
      in case write_text w output_path fs of
           Inl e \<Rightarrow> Inl e
         | Inr fs1 \<Rightarrow> (case writer_error w res of Some e \<Rightarrow> Inl e | None \<Rightarrow> Inr fs1))"

text \<open>
  What a run does, in order. Each \<open>print\<close> statement of the script is one constructor of
  \<open>line\<close>, carrying the values it formats; the wording and the number formatting are not
  modelled, except for the preview line, whose text is kept. Printing is taken not to
  fail. The other effects are the calls that reach outside the process; what they
  answer is in the \<open>env\<close>.

  By source line: \<open>NotFound\<close> 46, \<open>EnsureHeader\<close> 47, \<open>EnsureUploaded\<close> 48,
  \<open>EnsureSpelled\<close> 49, \<open>Rule\<close> 59, 61, 67, 117, 119 and 122, \<open>Title\<close> 60,
  \<open>InputFile\<close> 62, \<open>FileSize\<close> 63, \<open>UsingModel\<close> 64, \<open>Language\<close> 65, \<open>Estimate\<close> 66,
  \<open>Cancelled\<close> 72, \<open>Loading\<close> 76, \<open>Loaded\<close> 80, \<open>Starting\<close> 82, \<open>ProgressNote\<close> 83,
  \<open>Finished\<close> 96, \<open>SrtFile\<close> 107, \<open>TxtFile\<close> 114, \<open>PreviewTitle\<close> 118, \<open>Preview\<close> 121,
  \<open>StatsHeader\<close> 125, \<open>CharCount\<close> 126, \<open>Speed\<close> 127, \<open>AllDone\<close> 129,
  \<open>DownloadTip\<close> 130. \<open>MakeDirs\<close> is line 53, \<open>Prompt\<close> line 70, \<open>LoadModel\<close> line 78,
  \<open>Transcribe\<close> lines 86 to 93, \<open>WriterCall\<close> lines 105 and 106 (format, directory,
  path), \<open>WriteText\<close> lines 112 and 113 (path, text).
\<close>

datatype line =
    NotFound pystr
  | EnsureHeader
  | EnsureUploaded
  | EnsureSpelled
  | Rule
  | Title
  | InputFile pystr
  | FileSize real
  | UsingModel pystr
  | Language pystr
  | Estimate real
  | Cancelled
  | Loading pystr
  | Loaded real
  | Starting
  | ProgressNote
  | Finished real
  | SrtFile pystr
  | TxtFile pystr
  | PreviewTitle
  | Preview pystr
  | StatsHeader
  | CharCount nat
  | Speed real
  | AllDone pystr
  | DownloadTip

datatype effect =
    Print line
  | MakeDirs pystr
  | Prompt
  | LoadModel pystr
  | Transcribe transcribe_call
  | WriterCall pystr pystr pystr
  | WriteText pystr pystr

text \<open>
  How a run ends: \<open>sys.exit(n)\<close>, the normal end of \<open>main\<close>, or an exception nobody
  catches.
\<close>

datatype outcome = Exit nat | Returned | Uncaught exn

record run =
  outcome :: outcome
  trace :: "effect list"
  final_fs :: filesystem

definition stop :: "outcome \<Rightarrow> filesystem \<Rightarrow> run" where
  "stop out fs = \<lparr>outcome = out, trace = [], final_fs = fs\<rparr>"

definition after :: "effect list \<Rightarrow> run \<Rightarrow> run" where
  "after es r = r\<lparr>trace := es @ trace r\<rparr>"


section \<open>The script\<close>

text \<open>The priming prompt of line 92, a fixed string of 23 code points.\<close>

definition initial_prompt :: pystr where
  "initial_prompt =
     [36825, 26159, 19968, 37096, 26085, 35821, 30005, 24433, 65292, 21253, 21547, 28165,
      26224, 30340, 23545, 35805, 12290, 35831, 20934, 30830, 36716, 24405, 12290]"

text \<open>
  Two marks of a text written in Japanese, for the prompt to be measured against.
  Japanese writes its particles and inflections in kana, so a Japanese sentence holds a
  hiragana or katakana letter (U+3041 to U+30FF). And it has none of the simplified
  Chinese characters below, which no Japanese character set (JIS X 0208, 0212, 0213)
  contains: U+8FD9, U+8BED, U+7535, U+5BF9, U+8BDD, U+8BF7, U+8F6C, U+5F55.
\<close>

definition is_kana :: "nat \<Rightarrow> bool" where
  "is_kana c \<longleftrightarrow> 12353 \<le> c \<and> c \<le> 12543"

definition simplified_chinese_only :: "nat list" where
  "simplified_chinese_only = [36825, 35821, 30005, 23545, 35805, 35831, 36716, 24405]"

definition japanese_text :: "pystr \<Rightarrow> bool" where
  "japanese_text s \<longleftrightarrow>
     list_ex is_kana s \<and> list_all (\<lambda>c. c \<notin> set simplified_chinese_only) s"

text \<open>Lines 120 and 121: \<open>text[:500] + ("..." if len(text) > 500 else "")\<close>.\<close>

definition preview_text :: "pystr \<Rightarrow> pystr" where
  "preview_text t = take 500 t @ (if 500 < length t then ustr ''...'' else [])"

text \<open>The float that the literal \<open>0.1\<close> denotes: 3602879701896397 / 2^55.\<close>

definition float_tenth :: real where
  "float_tenth = 3602879701896397 / 36028797018963968"

text \<open>
  Lines 116 to 130: the preview and the statistics. The throughput divides by the float
  sum \<open>transcribe_time + 0.1\<close>; the division raises when that float is zero.
\<close>

definition report :: "'m env \<Rightarrow> args \<Rightarrow> result \<Rightarrow> real \<Rightarrow> filesystem \<Rightarrow> run" where
  "report w a res transcribe_time fs =
     after [Print Rule, Print PreviewTitle, Print Rule,
            Print (Preview (preview_text (result_text res))), Print Rule,
            Print StatsHeader, Print (CharCount (length (result_text res)))]
       (let divisor = float_round w (transcribe_time + float_tenth)
        in if divisor = 0 then stop (Uncaught ZeroDivisionError) fs
           else after [Print (Speed (float_round w (real (length (result_text res)) / divisor))),
                       Print (AllDone (output_dir a)), Print DownloadTip]
                  (stop Returned fs))"

text \<open>Lines 96 to 114: the two output files.\<close>

definition save :: "'m env \<Rightarrow> args \<Rightarrow> result \<Rightarrow> real \<Rightarrow> filesystem \<Rightarrow> run" where
  "save w a res transcribe_time fs =
     (let base_name = fst (splitext (basename (input a)));
          timestamp = strftime (ustr ''%Y%m%d_%H%M%S'') (localtime w);
          srt_filename =
            base_name @ ustr ''_'' @ language a @ ustr ''_'' @ timestamp @ ustr ''.srt'';
          srt_path = join (output_dir a) srt_filename;
          txt_filename =
            base_name @ ustr ''_'' @ language a @ ustr ''_'' @ timestamp @ ustr ''.txt'';
          txt_path = join (output_dir a) txt_filename
      in after [Print (Finished (float_round w (transcribe_time / 60))),
                WriterCall (ustr ''srt'') (output_dir a) srt_path]
           (case result_writer w (ustr ''srt'') (output_dir a) res srt_path fs of
              Inl e \<Rightarrow> stop (Uncaught e) fs
            | Inr fs1 \<Rightarrow>
                after [Print (SrtFile srt_path), WriteText txt_path (result_text res)]
                  (case write_text w txt_path fs1 of
                     Inl e \<Rightarrow> stop (Uncaught e) fs1
                   | Inr fs2 \<Rightarrow>
                       after [Print (TxtFile txt_path)] (report w a res transcribe_time fs2))))"

text \<open>Lines 75 to 94: loading the model and transcribing.\<close>

definition process :: "'m env \<Rightarrow> args \<Rightarrow> filesystem \<Rightarrow> run" where
  "process w a fs =
     (let start_load = clock w 0
      in after [Print (Loading (model a)), LoadModel (model a)]
           (case load_model w (model a) of
              Inl e \<Rightarrow> stop (Uncaught e) fs
            | Inr m \<Rightarrow>
                (let load_time = float_round w (clock w 1 - start_load);
                     start_transcribe = clock w 2;
                     call = \<lparr>audio = input a, kw_language = language a, kw_verbose = True,
                             kw_fp16 = True, kw_task = ustr ''transcribe'',
                             kw_initial_prompt = initial_prompt\<rparr>
                 in after [Print (Loaded load_time), Print Starting, Print ProgressNote,
                           Transcribe call]
                      (case transcribe w m call of
                         Inl e \<Rightarrow> stop (Uncaught e) fs
                       | Inr res \<Rightarrow>
                           save w a res (float_round w (clock w 3 - start_transcribe)) fs))))"

text \<open>Lines 44 to 73, and the rest through \<open>process\<close>.\<close>

definition main :: "'m env \<Rightarrow> args \<Rightarrow> run" where
  "main w a =
     (if \<not> path_exists (fs0 w) (input a)
      then after [Print (NotFound (input a)), Print EnsureHeader, Print EnsureUploaded,
                  Print EnsureSpelled]
             (stop (Exit 1) (fs0 w))
      else after [MakeDirs (output_dir a)]
             (case makedirs w (output_dir a) (fs0 w) of
                Inl e \<Rightarrow> stop (Uncaught e) (fs0 w)
              | Inr fs \<Rightarrow>
                  (case getsize w (input a) of
                     Inl e \<Rightarrow> stop (Uncaught e) fs
                   | Inr n \<Rightarrow>
                       (let file_size = real n / (1024 * 1024);
                            est_time = estimate_time file_size (model a)
                        in after [Print Rule, Print Title, Print Rule,
                                  Print (InputFile (input a)), Print (FileSize file_size),
                                  Print (UsingModel (model a)), Print (Language (language a)),
                                  Print (Estimate est_time), Print Rule, Prompt]
                             (case stdin w of
                                Inl e \<Rightarrow> stop (Uncaught e) fs
                              | Inr response \<Rightarrow>
                                  if lower response \<noteq> ustr ''y''
                                  then after [Print Cancelled] (stop (Exit 0) fs)
                                  else process w a fs)))))"

text \<open>
  The status the process exits with: the argument of \<open>sys.exit\<close>, 0 at the normal end,
  and 1 when the interpreter reports an uncaught exception.
\<close>

definition exit_status :: "outcome \<Rightarrow> nat" where
  "exit_status out = (case out of Exit n \<Rightarrow> n | Returned \<Rightarrow> 0 | Uncaught e \<Rightarrow> 1)"

text \<open>The paths a run asks to have written, in order.\<close>

fun written_path :: "effect \<Rightarrow> pystr option" where
  "written_path (WriterCall fmt dir p) = Some p"
| "written_path (WriteText p s) = Some p"
| "written_path e = None"

definition output_files :: "effect list \<Rightarrow> pystr list" where
  "output_files es = List.map_filter written_path es"



section \<open>An example world\<close>

text \<open>
  A one-gigabyte file \<open>movie.mp4\<close>, a library that loads every model and transcribes
  every file to the same text \<open>res\<close> (a short one in \<open>example_env\<close>), no failure while
  writing, and an operator who types \<open>answer\<close>. The local time is 9 March 2024,
  07:05:00. The clock reads 0, 1, 2 and 3, and no operation on these times needs
  rounding to tell zero from non-zero, so \<open>float_round\<close> is left as the identity.
\<close>

definition example_result :: result where
  "example_result =
     \<lparr>result_text = ustr ''konnichiwa'', result_segments = [(0, 2, ustr ''konnichiwa'')]\<rparr>"

definition example_world :: "result \<Rightarrow> pystr \<Rightarrow> unit env" where
  "example_world res answer =
     \<lparr>fs0 = [ustr ''movie.mp4'' \<mapsto> File],
      mkdir_error = (\<lambda>p. None),
      getsize = (\<lambda>p. Inr 1073741824),
      stdin = Inr answer,
      clock = (\<lambda>k. real k),
      localtime = \<lparr>tm_year = 2024, tm_mon = 3, tm_mday = 9,
                   tm_hour = 7, tm_min = 5, tm_sec = 0\<rparr>,
      load_model = (\<lambda>name. Inr ()),
      transcribe = (\<lambda>m c. Inr res),
      writer_error = (\<lambda>res. None),
      write_error = (\<lambda>p. None),
      float_round = (\<lambda>x. x)\<rparr>"

definition example_env :: "pystr \<Rightarrow> unit env" where
  "example_env answer = example_world example_result answer"

text \<open>A transcript of 600 characters, for the preview.\<close>

definition long_result :: result where
  "long_result = \<lparr>result_text = replicate 600 97, result_segments = []\<rparr>"

definition example_args :: "pystr \<Rightarrow> args" where
  "example_args path =
     \<lparr>input = path, model = ustr ''large-v3'', language = ustr ''ja'',
      output_dir = ustr ''output''\<rparr>"


section \<open>Properties of the time estimate\<close>

lemma rate_nonneg: "0 \<le> dict_get base_time_per_gb model_size 30"
  by (simp add: dict_get_def base_time_per_gb_def)

lemma rate_unknown:
  assumes "model_size \<notin> fst ` set base_time_per_gb"
  shows "dict_get base_time_per_gb model_size 30 = 30"
proof -
  from assms have "map_of base_time_per_gb model_size = None"
    by (simp add: map_of_eq_None_iff)
  then show ?thesis by (simp add: dict_get_def)
qed

lemma available_models_in_table: "set get_available_models = fst ` set base_time_per_gb"
  by (simp add: get_available_models_def base_time_per_gb_def)

lemma rate_medium: "dict_get base_time_per_gb (ustr ''medium'') 30 = 30"
  by (simp add: dict_get_def base_time_per_gb_def ustr_def)

text \<open>
  Claim C1. For every model identifier, in the table or not, and every non-negative file
  size in MB, \<open>estimate_time\<close> returns a value of at least 5. (The bound comes from the
  final \<open>max\<close> and does not depend on the rate that was looked up.)
\<close>

theorem estimate_time_at_least_5:
  "0 \<le> file_size_mb \<Longrightarrow> 5 \<le> estimate_time file_size_mb model_size"
  by (simp add: estimate_time_def Let_def)

theorem estimate_time_at_least_5_witness:
  "(0::real) \<le> 300 \<and> 5 \<le> estimate_time 300 (ustr ''no-such-model'')"
proof -
  have h: "(0::real) \<le> 300" by simp
  from estimate_time_at_least_5 [OF h, of "ustr ''no-such-model''"] h
  show ?thesis by simp
qed

text \<open>
  Claim C2. For a fixed model identifier the estimate is monotonically non-decreasing in
  the file size: \<open>a \<le> b\<close> gives \<open>estimate_time a m \<le> estimate_time b m\<close>.
\<close>

theorem estimate_time_mono:
  assumes "a \<le> b"
  shows "estimate_time a model_size \<le> estimate_time b model_size"
proof -
  let ?r = "real_of_int (dict_get base_time_per_gb model_size 30)"
  have "0 \<le> ?r" using rate_nonneg [of model_size] by simp
  moreover from assms have "a / 1024 \<le> b / 1024" by simp
  ultimately have "?r * (a / 1024) \<le> ?r * (b / 1024)"
    by (rule mult_left_mono [rotated])
  then show ?thesis by (simp add: estimate_time_def Let_def max.coboundedI2)
qed

theorem estimate_time_mono_witness:
  "(1024::real) \<le> 4096 \<and>
   estimate_time 1024 (ustr ''large-v3'') \<le> estimate_time 4096 (ustr ''large-v3'')"
proof -
  have h: "(1024::real) \<le> 4096" by simp
  from estimate_time_mono [OF h, of "ustr ''large-v3''"] h
  show ?thesis by simp
qed

text \<open>
  Claim C3. \<open>estimate_time(1024, "tiny")\<close> equals 5.0 (one gigabyte at 5 minutes per
  gigabyte, which meets the minimum) and \<open>estimate_time(2048, "base")\<close> equals 20.0.
\<close>

theorem estimate_time_examples:
  "estimate_time 1024 (ustr ''tiny'') = 5 \<and> estimate_time 2048 (ustr ''base'') = 20"
  by (simp add: estimate_time_def dict_get_def base_time_per_gb_def ustr_def)

text \<open>
  Claim C4. A model identifier that is not a key of the table gives, for every file size,
  the same estimate as \<open>"medium"\<close>: both use 30 minutes per gigabyte.
\<close>

theorem estimate_time_unknown_as_medium:
  assumes "model_size \<notin> fst ` set base_time_per_gb"
  shows "estimate_time file_size_mb model_size = estimate_time file_size_mb (ustr ''medium'')"
  using rate_unknown [OF assms] rate_medium by (simp add: estimate_time_def)

theorem estimate_time_unknown_as_medium_witness:
  "ustr ''turbo'' \<notin> fst ` set base_time_per_gb \<and>
   estimate_time 2048 (ustr ''turbo'') = estimate_time 2048 (ustr ''medium'')"
proof -
  have h: "ustr ''turbo'' \<notin> fst ` set base_time_per_gb"
    by (simp add: base_time_per_gb_def ustr_def)
  from estimate_time_unknown_as_medium [OF h, of 2048] h
  show ?thesis by simp
qed


section \<open>Facts about the library functions\<close>

lemma lower_eq_y: "lower r = ustr ''y'' \<longleftrightarrow> r = ustr ''y'' \<or> r = ustr ''Y''"
proof -
  have cp: "lower_cp c = 121 \<longleftrightarrow> c = 121 \<or> c = 89" for c
    by (auto simp: lower_cp_def)
  show ?thesis
    by (cases r; cases "tl r") (auto simp: lower_def ustr_def cp)
qed

lemma rfind_bounds: "- 1 \<le> rfind p c \<and> rfind p c < int (length p)"
  by (induction p) (auto simp: Let_def)

lemma rfind_last: "i < length p \<Longrightarrow> rfind p c < int i \<Longrightarrow> p ! i \<noteq> c"
proof (induction p arbitrary: i)
  case Nil
  then show ?case by simp
next
  case (Cons x xs)
  show ?case
  proof (cases i)
    case 0
    with Cons.prems show ?thesis by (auto simp: Let_def split: if_splits)
  next
    case (Suc j)
    with Cons.prems have "j < length xs" "rfind xs c < int j"
      by (auto simp: Let_def split: if_splits)
    with Cons.IH [of j] Suc show ?thesis by simp
  qed
qed

lemma basename_no_sep: "sep \<notin> set (basename p)"
proof
  assume "sep \<in> set (basename p)"
  then obtain k where k: "k < length (basename p)" "basename p ! k = sep"
    by (auto simp: in_set_conv_nth)
  let ?n = "nat (rfind p sep + 1)"
  from k have "?n + k < length p" "p ! (?n + k) = sep"
    by (auto simp: basename_def)
  moreover have "rfind p sep < int (?n + k)"
    using rfind_bounds [of p sep] by linarith
  ultimately show False using rfind_last [of "?n + k" p sep] by blast
qed

lemma splitext_subset: "set (fst (splitext p)) \<subseteq> set p"
  by (auto simp: splitext_def Let_def dest: in_set_takeD)

lemma base_name_no_sep: "sep \<notin> set (fst (splitext (basename p)))"
  using basename_no_sep [of p] splitext_subset [of "basename p"] by blast

lemma name_head: "sep \<notin> set base \<Longrightarrow> hd (base @ ustr ''_'' @ rest) \<noteq> sep"
  by (cases base) (auto simp: ustr_def sep_def)

lemma join_relative:
  assumes "b \<noteq> []" "hd b \<noteq> sep"
  shows "join a b = (if a = [] \<or> last a = sep then a else a @ [sep]) @ b"
  using assms by (simp add: join_def)

lemma decimal_small: "n < 10 \<Longrightarrow> decimal n = [48 + n]"
  by (simp add: decimal.simps [of n])

lemma decimal_step: "10 \<le> n \<Longrightarrow> decimal n = decimal (n div 10) @ [48 + n mod 10]"
  by (simp add: decimal.simps [of n])

lemma decimal_two:
  assumes "10 \<le> n" "n \<le> 99"
  shows "decimal n = [48 + n div 10, 48 + n mod 10]"
proof -
  from assms have "n div 10 < 10" by simp
  with assms show ?thesis by (simp add: decimal_step decimal_small)
qed

lemma decimal_four:
  assumes "1000 \<le> n" "n \<le> 9999"
  shows "decimal n =
           [48 + n div 1000, 48 + n div 100 mod 10, 48 + n div 10 mod 10, 48 + n mod 10]"
proof -
  from assms have a: "10 \<le> n" "10 \<le> n div 10" "10 \<le> n div 100" "n div 1000 < 10"
    by simp_all
  have "decimal n = decimal (n div 10) @ [48 + n mod 10]"
    using a(1) by (rule decimal_step)
  also have "decimal (n div 10) = decimal (n div 10 div 10) @ [48 + n div 10 mod 10]"
    using a(2) by (rule decimal_step)
  also have "n div 10 div 10 = n div 100" by (simp add: div_mult2_eq [symmetric])
  also have "decimal (n div 100) = decimal (n div 100 div 10) @ [48 + n div 100 mod 10]"
    using a(3) by (rule decimal_step)
  also have "n div 100 div 10 = n div 1000" by (simp add: div_mult2_eq [symmetric])
  also have "decimal (n div 1000) = [48 + n div 1000]"
    using a(4) by (rule decimal_small)
  finally show ?thesis by simp
qed

lemma pad2_digits:
  assumes "n \<le> 99"
  shows "\<exists>x y. pad2 n = [x, y] \<and> is_digit x \<and> is_digit y"
proof (cases "n < 10")
  case True
  then show ?thesis by (simp add: pad2_def is_digit_def)
next
  case False
  with assms have "pad2 n = [48 + n div 10, 48 + n mod 10]"
    by (simp add: pad2_def decimal_two)
  moreover from assms have "n div 10 \<le> 9" by simp
  moreover have "n mod 10 \<le> 9" by simp
  ultimately show ?thesis by (simp add: is_digit_def)
qed

lemma year_digits:
  assumes "1000 \<le> n" "n \<le> 9999"
  shows "\<exists>a b c d. decimal n = [a, b, c, d] \<and>
           is_digit a \<and> is_digit b \<and> is_digit c \<and> is_digit d"
proof -
  from assms have "n div 1000 \<le> 9" by simp
  moreover have "n div 100 mod 10 \<le> 9" "n div 10 mod 10 \<le> 9" "n mod 10 \<le> 9"
    by simp_all
  ultimately show ?thesis using decimal_four [OF assms] by (simp add: is_digit_def)
qed

lemma strftime_format:
  "strftime (ustr ''%Y%m%d_%H%M%S'') tm =
     decimal (tm_year tm) @ pad2 (tm_mon tm) @ pad2 (tm_mday tm) @ [95] @
     pad2 (tm_hour tm) @ pad2 (tm_min tm) @ pad2 (tm_sec tm)"
  by (simp add: ustr_def directive_def)

lemma timestamp_well_formed:
  assumes "valid_tm tm"
  shows "well_formed_timestamp (strftime (ustr ''%Y%m%d_%H%M%S'') tm)"
proof -
  from assms obtain a b c d where y: "decimal (tm_year tm) = [a, b, c, d]"
    "is_digit a" "is_digit b" "is_digit c" "is_digit d"
    using year_digits [of "tm_year tm"] by (auto simp: valid_tm_def)
  from assms obtain m1 m2 where m: "pad2 (tm_mon tm) = [m1, m2]" "is_digit m1" "is_digit m2"
    using pad2_digits [of "tm_mon tm"] by (auto simp: valid_tm_def)
  from assms obtain d1 d2 where d: "pad2 (tm_mday tm) = [d1, d2]" "is_digit d1" "is_digit d2"
    using pad2_digits [of "tm_mday tm"] by (auto simp: valid_tm_def)
  from assms obtain h1 h2 where h: "pad2 (tm_hour tm) = [h1, h2]" "is_digit h1" "is_digit h2"
    using pad2_digits [of "tm_hour tm"] by (auto simp: valid_tm_def)
  from assms obtain n1 n2 where n: "pad2 (tm_min tm) = [n1, n2]" "is_digit n1" "is_digit n2"
    using pad2_digits [of "tm_min tm"] by (auto simp: valid_tm_def)
  from assms obtain s1 s2 where s: "pad2 (tm_sec tm) = [s1, s2]" "is_digit s1" "is_digit s2"
    using pad2_digits [of "tm_sec tm"] by (auto simp: valid_tm_def)
  show ?thesis
    by (simp add: strftime_format well_formed_timestamp_def y m d h n s)
qed


text \<open>The path that the subtitle writer opens, when it is given a path made by the script.\<close>

lemma rfind_notin: "c \<notin> set p \<Longrightarrow> rfind p c = - 1"
  by (induction p) (auto simp: Let_def)

lemma rfind_append_notin: "c \<notin> set ys \<Longrightarrow> rfind (xs @ ys) c = rfind xs c"
  by (induction xs) (auto simp: Let_def rfind_notin)

lemma rfind_snoc: "rfind (xs @ [c]) c = int (length xs)"
  by (induction xs) (auto simp: Let_def)

lemma rfind_last_occurrence:
  assumes "c \<notin> set ys"
  shows "rfind (xs @ c # ys) c = int (length xs)"
proof -
  have "rfind ((xs @ [c]) @ ys) c = rfind (xs @ [c]) c"
    using assms by (rule rfind_append_notin)
  then show ?thesis by (simp add: rfind_snoc)
qed

lemma basename_join:
  assumes "sep \<notin> set name" "name \<noteq> []"
  shows "basename (join dir name) = name"
proof -
  from assms have h: "hd name \<noteq> sep" by (cases name) auto
  show ?thesis
  proof (cases "dir = []")
    case True
    with assms h show ?thesis
      by (simp add: join_def basename_def rfind_notin)
  next
    case False
    define d where "d = (if last dir = sep then butlast dir else dir)"
    have "dir = butlast dir @ [sep]" if "last dir = sep"
      using False that append_butlast_last_id [of dir] by simp
    then have j: "join dir name = d @ sep # name"
      using False assms(2) h by (auto simp: join_def d_def)
    have "rfind (d @ sep # name) sep = int (length d)"
      using assms(1) by (rule rfind_last_occurrence)
    moreover have "nat (int (length d) + 1) = Suc (length d)" by simp
    ultimately show ?thesis by (simp add: j basename_def)
  qed
qed

lemma splitext_stem:
  assumes "sep \<notin> set stem" "sep \<notin> set ext" "extsep \<notin> set ext"
    and "c \<in> set stem" "c \<noteq> extsep"
  shows "splitext (stem @ extsep # ext) = (stem, extsep # ext)"
proof -
  let ?p = "stem @ extsep # ext"
  have s: "rfind ?p sep = - 1"
    using assms(1,2) by (simp add: rfind_notin sep_def extsep_def)
  have d: "rfind ?p extsep = int (length stem)"
    using assms(3) by (rule rfind_last_occurrence)
  from assms(4) obtain i where i: "i < length stem" "stem ! i = c"
    by (auto simp: in_set_conv_nth)
  then have "?p ! i \<noteq> extsep" using assms(5) by (simp add: nth_append)
  with i(1) have "list_ex (\<lambda>i. ?p ! i \<noteq> extsep) [0..<length stem]"
    by (auto simp: list_ex_iff)
  then show ?thesis by (simp add: splitext_def s d)
qed

lemma decimal_digits: "set (decimal n) \<subseteq> {48..57}"
proof (induction n rule: decimal.induct)
  case (1 n)
  show ?case
  proof (cases "n < 10")
    case True
    then show ?thesis by (simp add: decimal.simps [of n])
  next
    case False
    have "n mod 10 \<le> 9" by simp
    with False 1 show ?thesis by (auto simp: decimal.simps [of n])
  qed
qed

lemma pad2_chars: "set (pad2 n) \<subseteq> {48..57}"
  using decimal_digits [of n] by (auto simp: pad2_def)

lemma timestamp_no_sep: "sep \<notin> set (strftime (ustr ''%Y%m%d_%H%M%S'') tm)"
proof -
  have "set (strftime (ustr ''%Y%m%d_%H%M%S'') tm) \<subseteq> {48..57} \<union> {95}"
    using decimal_digits [of "tm_year tm"] pad2_chars [of "tm_mon tm"] pad2_chars [of "tm_mday tm"]
      pad2_chars [of "tm_hour tm"] pad2_chars [of "tm_min tm"] pad2_chars [of "tm_sec tm"]
    by (auto simp: strftime_format)
  then show ?thesis by (auto simp: sep_def)
qed

lemma writer_target:
  assumes "sep \<notin> set base" "sep \<notin> set lang" "sep \<notin> set ts"
  shows "join dir (fst (splitext (basename
            (join dir (base @ ustr ''_'' @ lang @ ustr ''_'' @ ts @ ustr ''.srt'')))) @
            ustr ''.'' @ ustr ''srt'') =
         join dir (base @ ustr ''_'' @ lang @ ustr ''_'' @ ts @ ustr ''.srt'')"
proof -
  let ?stem = "base @ ustr ''_'' @ lang @ ustr ''_'' @ ts"
  have e: "ustr ''.srt'' = extsep # ustr ''srt''" "ustr ''.'' @ ustr ''srt'' = extsep # ustr ''srt''"
    by (simp_all add: ustr_def extsep_def)
  have ns: "sep \<notin> set ?stem" using assms by (simp add: ustr_def sep_def)
  have nx: "sep \<notin> set (ustr ''srt'')" "extsep \<notin> set (ustr ''srt'')"
    by (simp_all add: ustr_def sep_def extsep_def)
  have u: "95 \<in> set ?stem" "(95::nat) \<noteq> extsep" by (simp_all add: ustr_def extsep_def)
  have "basename (join dir (?stem @ extsep # ustr ''srt'')) = ?stem @ extsep # ustr ''srt''"
    using ns nx(1) by (intro basename_join) (auto simp: sep_def extsep_def)
  moreover have "splitext (?stem @ extsep # ustr ''srt'') = (?stem, extsep # ustr ''srt'')"
    using ns nx u by (rule splitext_stem)
  ultimately show ?thesis by (simp add: e)
qed

section \<open>Facts about runs that return\<close>

lemma outcome_after: "outcome (after es r) = outcome r"
  by (simp add: after_def)

lemma trace_after: "trace (after es r) = es @ trace r"
  by (simp add: after_def)

lemma final_fs_after: "final_fs (after es r) = final_fs r"
  by (simp add: after_def)

lemma stop_simps:
  "outcome (stop out fs) = out" "trace (stop out fs) = []" "final_fs (stop out fs) = fs"
  by (simp_all add: stop_def)

lemmas run_simps = outcome_after trace_after final_fs_after stop_simps

lemma makedirs_Inr:
  assumes "makedirs w p fs = Inr fs1"
  shows "fs1 p = Some Dir \<and> (\<forall>q. fs1 q = Some File \<longrightarrow> fs q = Some File)"
  using assms
  by (auto simp: makedirs_def split: option.splits node.splits if_splits)

lemma write_text_Inr:
  assumes "write_text w p fs = Inr fs1"
  shows "fs1 = fs(p \<mapsto> File)"
  using assms
  by (auto simp: write_text_def split: option.splits node.splits)

lemma result_writer_Inr:
  assumes "result_writer w extension dir res audio_path fs = Inr fs1"
  shows "fs1 = fs(join dir (fst (splitext (basename audio_path)) @ ustr ''.'' @ extension) \<mapsto> File)"
  using assms
  by (auto simp: result_writer_def Let_def dest: write_text_Inr split: sum.splits option.splits)

lemma report_returned:
  assumes "outcome (report w a res t fs) = Returned"
  shows "report w a res t fs =
     \<lparr>outcome = Returned,
      trace = [Print Rule, Print PreviewTitle, Print Rule,
               Print (Preview (preview_text (result_text res))), Print Rule,
               Print StatsHeader, Print (CharCount (length (result_text res))),
               Print (Speed (float_round w (real (length (result_text res)) /
                        float_round w (t + float_tenth)))),
               Print (AllDone (output_dir a)), Print DownloadTip],
      final_fs = fs\<rparr>"
  using assms by (simp add: report_def Let_def after_def stop_def split: if_splits)

lemma save_returned:
  assumes "outcome (save w a res t fs) = Returned"
  defines "stem \<equiv> fst (splitext (basename (input a))) @ ustr ''_'' @ language a @ ustr ''_'' @
                  strftime (ustr ''%Y%m%d_%H%M%S'') (localtime w)"
  shows "\<exists>fs1 fs2.
     result_writer w (ustr ''srt'') (output_dir a) res
       (join (output_dir a) (stem @ ustr ''.srt'')) fs = Inr fs1 \<and>
     write_text w (join (output_dir a) (stem @ ustr ''.txt'')) fs1 = Inr fs2 \<and>
     outcome (report w a res t fs2) = Returned \<and>
     trace (save w a res t fs) =
       [Print (Finished (float_round w (t / 60))),
        WriterCall (ustr ''srt'') (output_dir a) (join (output_dir a) (stem @ ustr ''.srt'')),
        Print (SrtFile (join (output_dir a) (stem @ ustr ''.srt''))),
        WriteText (join (output_dir a) (stem @ ustr ''.txt'')) (result_text res),
        Print (TxtFile (join (output_dir a) (stem @ ustr ''.txt'')))] @
       trace (report w a res t fs2) \<and>
     final_fs (save w a res t fs) = final_fs (report w a res t fs2)"
  using assms(1) unfolding stem_def
  by (auto simp: save_def Let_def run_simps split: sum.splits)

lemma process_returned:
  assumes "outcome (process w a fs) = Returned"
  shows "\<exists>m res.
     load_model w (model a) = Inr m \<and>
     transcribe w m
       \<lparr>audio = input a, kw_language = language a, kw_verbose = True, kw_fp16 = True,
        kw_task = ustr ''transcribe'', kw_initial_prompt = initial_prompt\<rparr> = Inr res \<and>
     outcome (save w a res (float_round w (clock w 3 - clock w 2)) fs) = Returned \<and>
     trace (process w a fs) =
       [Print (Loading (model a)), LoadModel (model a),
        Print (Loaded (float_round w (clock w 1 - clock w 0))), Print Starting,
        Print ProgressNote,
        Transcribe \<lparr>audio = input a, kw_language = language a, kw_verbose = True,
                     kw_fp16 = True, kw_task = ustr ''transcribe'',
                     kw_initial_prompt = initial_prompt\<rparr>] @
       trace (save w a res (float_round w (clock w 3 - clock w 2)) fs) \<and>
     final_fs (process w a fs) =
       final_fs (save w a res (float_round w (clock w 3 - clock w 2)) fs)"
  using assms
  by (auto simp: process_def Let_def run_simps split: sum.splits)

lemma main_returned:
  assumes "outcome (main w a) = Returned"
  shows "\<exists>fs n.
     makedirs w (output_dir a) (fs0 w) = Inr fs \<and>
     outcome (process w a fs) = Returned \<and>
     trace (main w a) =
       [MakeDirs (output_dir a), Print Rule, Print Title, Print Rule,
        Print (InputFile (input a)), Print (FileSize (real n / (1024 * 1024))),
        Print (UsingModel (model a)), Print (Language (language a)),
        Print (Estimate (estimate_time (real n / (1024 * 1024)) (model a))), Print Rule,
        Prompt] @ trace (process w a fs) \<and>
     final_fs (main w a) = final_fs (process w a fs)"
  using assms
  by (auto simp: main_def Let_def run_simps split: sum.splits if_splits)

lemma returned_run:
  assumes "outcome (main w a) = Returned"
  defines "stem \<equiv> fst (splitext (basename (input a))) @ ustr ''_'' @ language a @ ustr ''_'' @
                  strftime (ustr ''%Y%m%d_%H%M%S'') (localtime w)"
  obtains fs n m res fs1 fs2 where
    "makedirs w (output_dir a) (fs0 w) = Inr fs"
    "load_model w (model a) = Inr m"
    "transcribe w m
       \<lparr>audio = input a, kw_language = language a, kw_verbose = True, kw_fp16 = True,
        kw_task = ustr ''transcribe'', kw_initial_prompt = initial_prompt\<rparr> = Inr res"
    "result_writer w (ustr ''srt'') (output_dir a) res
       (join (output_dir a) (stem @ ustr ''.srt'')) fs = Inr fs1"
    "write_text w (join (output_dir a) (stem @ ustr ''.txt'')) fs1 = Inr fs2"
    "final_fs (main w a) = fs2"
    "output_files (trace (main w a)) =
       [join (output_dir a) (stem @ ustr ''.srt''), join (output_dir a) (stem @ ustr ''.txt'')]"
    "Print (Preview (preview_text (result_text res))) \<in> set (trace (main w a))"
    "\<forall>s. Print (Preview s) \<in> set (trace (main w a)) \<longrightarrow>
       s = preview_text (result_text res)"
proof -
  from main_returned [OF assms(1)] obtain fs n where 1:
    "makedirs w (output_dir a) (fs0 w) = Inr fs"
    "outcome (process w a fs) = Returned"
    "trace (main w a) =
       [MakeDirs (output_dir a), Print Rule, Print Title, Print Rule,
        Print (InputFile (input a)), Print (FileSize (real n / (1024 * 1024))),
        Print (UsingModel (model a)), Print (Language (language a)),
        Print (Estimate (estimate_time (real n / (1024 * 1024)) (model a))), Print Rule,
        Prompt] @ trace (process w a fs)"
    "final_fs (main w a) = final_fs (process w a fs)"
    by blast
  let ?t = "float_round w (clock w 3 - clock w 2)"
  from process_returned [OF 1(2)] obtain m res where 2:
    "load_model w (model a) = Inr m"
    "transcribe w m
       \<lparr>audio = input a, kw_language = language a, kw_verbose = True, kw_fp16 = True,
        kw_task = ustr ''transcribe'', kw_initial_prompt = initial_prompt\<rparr> = Inr res"
    "outcome (save w a res ?t fs) = Returned"
    "trace (process w a fs) =
       [Print (Loading (model a)), LoadModel (model a),
        Print (Loaded (float_round w (clock w 1 - clock w 0))), Print Starting,
        Print ProgressNote,
        Transcribe \<lparr>audio = input a, kw_language = language a, kw_verbose = True,
                     kw_fp16 = True, kw_task = ustr ''transcribe'',
                     kw_initial_prompt = initial_prompt\<rparr>] @
       trace (save w a res ?t fs)"
    "final_fs (process w a fs) = final_fs (save w a res ?t fs)"
    by blast
  from save_returned [OF 2(3)] obtain fs1 fs2 where 3:
    "result_writer w (ustr ''srt'') (output_dir a) res
       (join (output_dir a) (stem @ ustr ''.srt'')) fs = Inr fs1"
    "write_text w (join (output_dir a) (stem @ ustr ''.txt'')) fs1 = Inr fs2"
    "outcome (report w a res ?t fs2) = Returned"
    "trace (save w a res ?t fs) =
       [Print (Finished (float_round w (?t / 60))),
        WriterCall (ustr ''srt'') (output_dir a) (join (output_dir a) (stem @ ustr ''.srt'')),
        Print (SrtFile (join (output_dir a) (stem @ ustr ''.srt''))),
        WriteText (join (output_dir a) (stem @ ustr ''.txt'')) (result_text res),
        Print (TxtFile (join (output_dir a) (stem @ ustr ''.txt'')))] @
       trace (report w a res ?t fs2)"
    "final_fs (save w a res ?t fs) = final_fs (report w a res ?t fs2)"
    unfolding stem_def by blast
  note 4 = report_returned [OF 3(3)]
  show ?thesis
    by (rule that [OF 1(1) 2(1) 2(2) 3(1) 3(2)])
      (simp_all add: 1 2 3 4 output_files_def List.map_filter_simps)
qed


section \<open>Facts about the example world\<close>

lemmas run_defs = main_def process_def save_def report_def after_def stop_def Let_def
  makedirs_def write_text_def result_writer_def

lemmas example_defs = example_env_def example_world_def example_args_def example_result_def

lemma example_input_exists:
  "path_exists (fs0 (example_env answer)) (input (example_args (ustr ''movie.mp4'')))"
  by (simp add: example_defs path_exists_def)

lemma example_input_missing:
  "\<not> path_exists (fs0 (example_env answer)) (input (example_args (ustr ''absent.mp4'')))"
  by (simp add: example_defs path_exists_def ustr_def)

lemma example_base_name: "fst (splitext (basename (ustr ''movie.mp4''))) = ustr ''movie''"
  by code_simp

lemma example_timestamp:
  "strftime (ustr ''%Y%m%d_%H%M%S'')
     \<lparr>tm_year = 2024, tm_mon = 3, tm_mday = 9, tm_hour = 7, tm_min = 5, tm_sec = 0\<rparr> =
   ustr ''20240309_070500''"
  by code_simp

lemma example_valid_tm: "valid_tm (localtime (example_env answer))"
  by (simp add: valid_tm_def example_defs)

lemma example_declined:
  "main (example_env (ustr ''no'')) (example_args (ustr ''movie.mp4'')) =
     \<lparr>outcome = Exit 0,
      trace = [MakeDirs (ustr ''output''), Print Rule, Print Title, Print Rule,
               Print (InputFile (ustr ''movie.mp4'')), Print (FileSize 1024),
               Print (UsingModel (ustr ''large-v3'')), Print (Language (ustr ''ja'')),
               Print (Estimate 50), Print Rule, Prompt, Print Cancelled],
      final_fs = [ustr ''movie.mp4'' \<mapsto> File, ustr ''output'' \<mapsto> Dir]\<rparr>"
  by (simp add: run_defs example_defs path_exists_def ustr_def lower_def lower_cp_def
      estimate_time_def dict_get_def base_time_per_gb_def)

lemma example_writer_base:
  "fst (splitext (basename (ustr ''output/movie_ja_20240309_070500.srt''))) =
   ustr ''movie_ja_20240309_070500''"
  by code_simp

lemma example_srt_path:
  "join (ustr ''output'') (ustr ''movie_ja_20240309_070500.srt'') =
   ustr ''output/movie_ja_20240309_070500.srt''"
  by (simp add: join_def sep_def ustr_def)

lemma example_run:
  "main (example_world res (ustr ''Y'')) (example_args (ustr ''movie.mp4'')) =
     \<lparr>outcome = Returned,
      trace =
        [MakeDirs (ustr ''output''), Print Rule, Print Title, Print Rule,
         Print (InputFile (ustr ''movie.mp4'')), Print (FileSize 1024),
         Print (UsingModel (ustr ''large-v3'')), Print (Language (ustr ''ja'')),
         Print (Estimate 50), Print Rule, Prompt,
         Print (Loading (ustr ''large-v3'')), LoadModel (ustr ''large-v3''),
         Print (Loaded 1), Print Starting, Print ProgressNote,
         Transcribe \<lparr>audio = ustr ''movie.mp4'', kw_language = ustr ''ja'', kw_verbose = True,
                      kw_fp16 = True, kw_task = ustr ''transcribe'',
                      kw_initial_prompt = initial_prompt\<rparr>,
         Print (Finished (1 / 60)),
         WriterCall (ustr ''srt'') (ustr ''output'')
           (ustr ''output/movie_ja_20240309_070500.srt''),
         Print (SrtFile (ustr ''output/movie_ja_20240309_070500.srt'')),
         WriteText (ustr ''output/movie_ja_20240309_070500.txt'') (result_text res),
         Print (TxtFile (ustr ''output/movie_ja_20240309_070500.txt'')),
         Print Rule, Print PreviewTitle, Print Rule,
         Print (Preview (preview_text (result_text res))), Print Rule,
         Print StatsHeader, Print (CharCount (length (result_text res))),
         Print (Speed (real (length (result_text res)) / (1 + float_tenth))),
         Print (AllDone (ustr ''output'')), Print DownloadTip],
      final_fs =
        [ustr ''movie.mp4'' \<mapsto> File, ustr ''output'' \<mapsto> Dir,
         ustr ''output/movie_ja_20240309_070500.srt'' \<mapsto> File,
         ustr ''output/movie_ja_20240309_070500.txt'' \<mapsto> File]\<rparr>"
proof -
  have b: "fst (splitext (basename (ustr ''movie.mp4''))) = ustr ''movie''"
    by (rule example_base_name)
  have n: "ustr ''movie'' @ ustr ''_'' @ ustr ''ja'' @ ustr ''_'' @ ustr ''20240309_070500'' @ ext =
           ustr ''movie_ja_20240309_070500'' @ ext" for ext
    by (simp add: ustr_def)
  have j: "join (ustr ''output'') (ustr ''movie_ja_20240309_070500'' @ ustr ext) =
           ustr ''output/movie_ja_20240309_070500'' @ ustr ext" for ext
    by (simp add: join_def sep_def ustr_def)
  have wb: "fst (splitext (basename (ustr ''output/movie_ja_20240309_070500.srt''))) =
            ustr ''movie_ja_20240309_070500''"
    by (rule example_writer_base)
  have ne: "ustr ''output/movie_ja_20240309_070500.txt'' \<noteq>
              ustr ''output/movie_ja_20240309_070500.srt''"
           "ustr ''output/movie_ja_20240309_070500.txt'' \<noteq> ustr ''output''"
           "ustr ''output/movie_ja_20240309_070500.srt'' \<noteq> ustr ''output''"
           "ustr ''output'' \<noteq> ustr ''movie.mp4''"
           "ustr ''output/movie_ja_20240309_070500.srt'' \<noteq> ustr ''movie.mp4''"
           "ustr ''output/movie_ja_20240309_070500.txt'' \<noteq> ustr ''movie.mp4''"
    by (simp_all add: ustr_def)
  have d: "ustr ''.'' @ ustr ''srt'' = ustr ''.srt''"
    by (simp add: ustr_def)
  have p: "ustr ''output/movie_ja_20240309_070500'' @ ustr ''.srt'' =
             ustr ''output/movie_ja_20240309_070500.srt''"
          "ustr ''output/movie_ja_20240309_070500'' @ ustr ''.txt'' =
             ustr ''output/movie_ja_20240309_070500.txt''"
    by (simp_all add: ustr_def)
  have f: "[ustr ''movie.mp4'' \<mapsto> File, ustr ''output'' \<mapsto> Dir]
             (ustr ''output/movie_ja_20240309_070500.srt'') = None"
          "[ustr ''movie.mp4'' \<mapsto> File, ustr ''output'' \<mapsto> Dir,
            ustr ''output/movie_ja_20240309_070500.srt'' \<mapsto> File]
             (ustr ''output/movie_ja_20240309_070500.txt'') = None"
          "[ustr ''movie.mp4'' \<mapsto> File] (ustr ''output'') = None"
    by (simp_all add: ustr_def)
  have l: "lower (ustr ''Y'') = ustr ''y''"
    by (simp add: lower_def lower_cp_def ustr_def)
  have z: "1 + float_tenth \<noteq> 0"
    by (simp add: float_tenth_def)
  have e: "estimate_time 1024 (ustr ''large-v3'') = 50"
    by (simp add: estimate_time_def dict_get_def base_time_per_gb_def ustr_def)
  show ?thesis
    by (simp add: main_def process_def save_def report_def result_writer_def Let_def
        after_def stop_def makedirs_def write_text_def example_world_def example_args_def
        path_exists_def example_timestamp b n j wb d p f l z e ne ne [symmetric])
qed

lemma example_completed:
  "outcome (main (example_env (ustr ''Y'')) (example_args (ustr ''movie.mp4''))) = Returned"
  by (simp add: example_env_def example_run)


section \<open>Properties of a run\<close>

text \<open>
  Claim C5. When the input path does not exist, the program exits with status 1, prints
  the remediation hint (the three lines after the error line) and does not create the
  output directory: the run has no \<open>os.makedirs\<close> call and leaves the file system as it
  was.
\<close>

theorem missing_input_exits_1:
  assumes "\<not> path_exists (fs0 w) (input a)"
  shows "outcome (main w a) = Exit 1 \<and> exit_status (outcome (main w a)) = 1 \<and>
         trace (main w a) =
           [Print (NotFound (input a)), Print EnsureHeader, Print EnsureUploaded,
            Print EnsureSpelled] \<and>
         (\<forall>d. MakeDirs d \<notin> set (trace (main w a))) \<and>
         final_fs (main w a) = fs0 w"
  using assms by (simp add: main_def after_def stop_def exit_status_def)

theorem missing_input_exits_1_witness:
  "\<not> path_exists (fs0 (example_env (ustr ''y''))) (input (example_args (ustr ''absent.mp4''))) \<and>
   outcome (main (example_env (ustr ''y'')) (example_args (ustr ''absent.mp4''))) = Exit 1 \<and>
   trace (main (example_env (ustr ''y'')) (example_args (ustr ''absent.mp4''))) =
     [Print (NotFound (ustr ''absent.mp4'')), Print EnsureHeader, Print EnsureUploaded,
      Print EnsureSpelled] \<and>
   final_fs (main (example_env (ustr ''y'')) (example_args (ustr ''absent.mp4''))) =
     [ustr ''movie.mp4'' \<mapsto> File]"
proof -
  have h: "\<not> path_exists (fs0 (example_env (ustr ''y'')))
             (input (example_args (ustr ''absent.mp4'')))"
    by (rule example_input_missing)
  from missing_input_exits_1 [OF h] h show ?thesis
    by (simp add: example_defs)
qed

text \<open>
  Claim C6. Given an existing input file, when the run reaches the confirmation prompt
  and the operator's response is anything other than \<open>"y"\<close> or \<open>"Y"\<close>, the program exits
  with status 0 without loading the model, without transcribing and without writing any
  output file: no write is requested and the file system has no file it did not have
  before.
\<close>

theorem declined_exits_0:
  assumes "path_exists (fs0 w) (input a)"
    and "Prompt \<in> set (trace (main w a))"
    and "stdin w = Inr response"
    and "response \<noteq> ustr ''y''"
    and "response \<noteq> ustr ''Y''"
  shows "outcome (main w a) = Exit 0 \<and> exit_status (outcome (main w a)) = 0 \<and>
         (\<forall>m. LoadModel m \<notin> set (trace (main w a))) \<and>
         (\<forall>c. Transcribe c \<notin> set (trace (main w a))) \<and>
         output_files (trace (main w a)) = [] \<and>
         (\<forall>p. final_fs (main w a) p = Some File \<longrightarrow> fs0 w p = Some File)"
proof -
  from assms(4,5) have n: "lower response \<noteq> ustr ''y''"
    by (simp add: lower_eq_y)
  show ?thesis
    using assms(1,2,3) n
    by (auto simp: main_def after_def stop_def Let_def makedirs_def exit_status_def
        output_files_def List.map_filter_simps
        split: sum.splits option.splits node.splits if_splits)
qed

theorem declined_exits_0_witness:
  "path_exists (fs0 (example_env (ustr ''no''))) (input (example_args (ustr ''movie.mp4''))) \<and>
   Prompt \<in> set (trace (main (example_env (ustr ''no'')) (example_args (ustr ''movie.mp4'')))) \<and>
   stdin (example_env (ustr ''no'')) = Inr (ustr ''no'') \<and>
   ustr ''no'' \<noteq> ustr ''y'' \<and> ustr ''no'' \<noteq> ustr ''Y'' \<and>
   outcome (main (example_env (ustr ''no'')) (example_args (ustr ''movie.mp4''))) = Exit 0 \<and>
   output_files (trace (main (example_env (ustr ''no'')) (example_args (ustr ''movie.mp4'')))) = []"
proof -
  have h1: "path_exists (fs0 (example_env (ustr ''no'')))
              (input (example_args (ustr ''movie.mp4'')))"
    by (rule example_input_exists)
  have h2: "Prompt \<in> set (trace (main (example_env (ustr ''no''))
              (example_args (ustr ''movie.mp4''))))"
    by (simp add: example_declined)
  have h3: "stdin (example_env (ustr ''no'')) = Inr (ustr ''no'')"
    by (simp add: example_defs)
  have h4: "ustr ''no'' \<noteq> ustr ''y''" and h5: "ustr ''no'' \<noteq> ustr ''Y''"
    by (simp_all add: ustr_def)
  from declined_exits_0 [OF h1 h2 h3 h4 h5] h1 h2 h3 h4 h5 show ?thesis
    by simp
qed

text \<open>
  Claim C7. On a run that returns, one preview line is printed, for the text that the
  transcription returned. For a transcript of more than 500 characters it is the first
  500 characters followed by \<open>"..."\<close>, at most 503 characters; for a transcript of 500
  characters or fewer it is the transcript itself, with no suffix.
\<close>

theorem printed_preview_bounded:
  assumes "outcome (main w a) = Returned"
  shows "\<exists>m res s.
           load_model w (model a) = Inr m \<and>
           transcribe w m
             \<lparr>audio = input a, kw_language = language a, kw_verbose = True, kw_fp16 = True,
              kw_task = ustr ''transcribe'', kw_initial_prompt = initial_prompt\<rparr> = Inr res \<and>
           Print (Preview s) \<in> set (trace (main w a)) \<and>
           (\<forall>s'. Print (Preview s') \<in> set (trace (main w a)) \<longrightarrow> s' = s) \<and>
           (500 < length (result_text res) \<longrightarrow>
              s = take 500 (result_text res) @ ustr ''...'' \<and> length s \<le> 503) \<and>
           (length (result_text res) \<le> 500 \<longrightarrow> s = result_text res)"
proof -
  from assms obtain m and res :: result where r:
    "load_model w (model a) = Inr m"
    "transcribe w m
       \<lparr>audio = input a, kw_language = language a, kw_verbose = True, kw_fp16 = True,
        kw_task = ustr ''transcribe'', kw_initial_prompt = initial_prompt\<rparr> = Inr res"
    "Print (Preview (preview_text (result_text res))) \<in> set (trace (main w a))"
    "\<forall>s. Print (Preview s) \<in> set (trace (main w a)) \<longrightarrow> s = preview_text (result_text res)"
    by (rule returned_run)
  let ?s = "preview_text (result_text res)"
  have "500 < length (result_text res) \<longrightarrow>
          ?s = take 500 (result_text res) @ ustr ''...'' \<and> length ?s \<le> 503"
    by (simp add: preview_text_def ustr_def)
  moreover have "length (result_text res) \<le> 500 \<longrightarrow> ?s = result_text res"
    by (simp add: preview_text_def)
  ultimately show ?thesis using r by blast
qed

theorem printed_preview_bounded_witness:
  "outcome (main (example_world long_result (ustr ''Y'')) (example_args (ustr ''movie.mp4''))) =
     Returned \<and>
   500 < length (result_text long_result) \<and>
   Print (Preview (replicate 500 97 @ ustr ''...'')) \<in>
     set (trace (main (example_world long_result (ustr ''Y''))
            (example_args (ustr ''movie.mp4'')))) \<and>
   outcome (main (example_world example_result (ustr ''Y'')) (example_args (ustr ''movie.mp4''))) =
     Returned \<and>
   length (result_text example_result) \<le> 500 \<and>
   Print (Preview (ustr ''konnichiwa'')) \<in>
     set (trace (main (example_world example_result (ustr ''Y''))
            (example_args (ustr ''movie.mp4''))))"
proof -
  let ?a = "example_args (ustr ''movie.mp4'')"
  have h: "outcome (main (example_world r (ustr ''Y'')) ?a) = Returned" for r
    by (simp add: example_run)
  have l: "500 < length (result_text long_result)"
    by (simp add: long_result_def)
  have k: "length (result_text example_result) \<le> 500"
    by (simp add: example_result_def ustr_def)
  have "Print (Preview (replicate 500 97 @ ustr ''...'')) \<in>
          set (trace (main (example_world long_result (ustr ''Y'')) ?a))"
  proof -
    from printed_preview_bounded [OF h [of long_result]] obtain m res s where
      "transcribe (example_world long_result (ustr ''Y'')) m
         \<lparr>audio = input ?a, kw_language = language ?a, kw_verbose = True, kw_fp16 = True,
          kw_task = ustr ''transcribe'', kw_initial_prompt = initial_prompt\<rparr> = Inr res"
      and p: "Print (Preview s) \<in> set (trace (main (example_world long_result (ustr ''Y'')) ?a))"
      and "500 < length (result_text res) \<longrightarrow>
             s = take 500 (result_text res) @ ustr ''...'' \<and> length s \<le> 503"
      by blast
    then have "res = long_result" "s = take 500 (result_text long_result) @ ustr ''...''"
      using l by (auto simp: example_world_def)
    with p show ?thesis by (simp add: long_result_def)
  qed
  moreover have "Print (Preview (ustr ''konnichiwa'')) \<in>
          set (trace (main (example_world example_result (ustr ''Y'')) ?a))"
  proof -
    from printed_preview_bounded [OF h [of example_result]] obtain m res s where
      "transcribe (example_world example_result (ustr ''Y'')) m
         \<lparr>audio = input ?a, kw_language = language ?a, kw_verbose = True, kw_fp16 = True,
          kw_task = ustr ''transcribe'', kw_initial_prompt = initial_prompt\<rparr> = Inr res"
      and p: "Print (Preview s) \<in> set (trace (main (example_world example_result (ustr ''Y'')) ?a))"
      and "length (result_text res) \<le> 500 \<longrightarrow> s = result_text res"
      by blast
    then have "res = example_result" "s = result_text example_result"
      using k by (auto simp: example_world_def)
    with p show ?thesis by (simp add: example_result_def)
  qed
  ultimately show ?thesis using h l k by blast
qed

lemma prompt_not_japanese:
  "\<not> list_ex is_kana initial_prompt \<and>
   list_ex (\<lambda>c. c \<in> set simplified_chinese_only) initial_prompt \<and>
   \<not> japanese_text initial_prompt"
  by (simp add: initial_prompt_def is_kana_def simplified_chinese_only_def japanese_text_def)

lemma example_transcribed:
  "Transcribe \<lparr>audio = ustr ''movie.mp4'', kw_language = ustr ''ja'', kw_verbose = True,
       kw_fp16 = True, kw_task = ustr ''transcribe'', kw_initial_prompt = initial_prompt\<rparr>
     \<in> set (trace (main (example_env (ustr ''Y'')) (example_args (ustr ''movie.mp4''))))"
  by (simp add: example_env_def example_run)

text \<open>
  Claim C8, as amended. On every run that reaches transcription, the transcription
  operation is called with the input path and the language of the run configuration and
  with the fixed flags: verbose on, fp16 on, task \<open>"transcribe"\<close>, and the fixed priming
  prompt of line 92. That prompt is not Japanese-language text: it is written in
  simplified Chinese (it says that the film is in Japanese), with no kana and with
  characters that Japanese does not use.
\<close>

theorem transcribe_call_chinese_prompt:
  assumes "Transcribe c \<in> set (trace (main w a))"
  shows "audio c = input a \<and> kw_language c = language a \<and> kw_verbose c \<and> kw_fp16 c \<and>
         kw_task c = ustr ''transcribe'' \<and>
         kw_initial_prompt c =
           [36825, 26159, 19968, 37096, 26085, 35821, 30005, 24433, 65292, 21253, 21547,
            28165, 26224, 30340, 23545, 35805, 12290, 35831, 20934, 30830, 36716, 24405,
            12290] \<and>
         \<not> list_ex is_kana (kw_initial_prompt c) \<and>
         list_ex (\<lambda>x. x \<in> set simplified_chinese_only) (kw_initial_prompt c)"
proof -
  from assms have "c = \<lparr>audio = input a, kw_language = language a, kw_verbose = True,
                         kw_fp16 = True, kw_task = ustr ''transcribe'',
                         kw_initial_prompt = initial_prompt\<rparr>"
    by (auto simp: main_def process_def save_def report_def Let_def after_def stop_def
        split: sum.splits if_splits)
  then show ?thesis
    using prompt_not_japanese by (simp add: initial_prompt_def)
qed

theorem transcribe_call_chinese_prompt_witness:
  "Transcribe \<lparr>audio = ustr ''movie.mp4'', kw_language = ustr ''ja'', kw_verbose = True,
       kw_fp16 = True, kw_task = ustr ''transcribe'', kw_initial_prompt = initial_prompt\<rparr>
     \<in> set (trace (main (example_env (ustr ''Y'')) (example_args (ustr ''movie.mp4'')))) \<and>
   ustr ''movie.mp4'' = input (example_args (ustr ''movie.mp4'')) \<and>
   ustr ''ja'' = language (example_args (ustr ''movie.mp4'')) \<and>
   initial_prompt =
     [36825, 26159, 19968, 37096, 26085, 35821, 30005, 24433, 65292, 21253, 21547,
      28165, 26224, 30340, 23545, 35805, 12290, 35831, 20934, 30830, 36716, 24405, 12290]"
  using transcribe_call_chinese_prompt [OF example_transcribed] example_transcribed
  by simp

text \<open>
  The claim as it was stated asks for a Japanese-language prompt. The example run reaches
  transcription, and the prompt of its call is not Japanese text.
\<close>

theorem transcribe_prompt_not_japanese:
  "Transcribe \<lparr>audio = ustr ''movie.mp4'', kw_language = ustr ''ja'', kw_verbose = True,
       kw_fp16 = True, kw_task = ustr ''transcribe'',
       kw_initial_prompt =
         [36825, 26159, 19968, 37096, 26085, 35821, 30005, 24433, 65292, 21253, 21547,
          28165, 26224, 30340, 23545, 35805, 12290, 35831, 20934, 30830, 36716, 24405,
          12290]\<rparr>
     \<in> set (trace (main (example_env (ustr ''Y'')) (example_args (ustr ''movie.mp4'')))) \<and>
   \<not> japanese_text
       [36825, 26159, 19968, 37096, 26085, 35821, 30005, 24433, 65292, 21253, 21547,
        28165, 26224, 30340, 23545, 35805, 12290, 35831, 20934, 30830, 36716, 24405, 12290]"
  using example_transcribed prompt_not_japanese by (simp add: initial_prompt_def)

text \<open>
  Claim C9. On every successful run exactly two output files are requested, both under
  the output directory (the directory, a separator unless it ends in one, and the file
  name): \<open>{base_name}_{language}_{timestamp}.srt\<close> through the subtitle writer and
  \<open>{base_name}_{language}_{timestamp}.txt\<close> as text. The two paths differ, and the text
  file is there when the run ends. When the language code has no path separator, the
  subtitle writer opens the very path it was given, so the subtitle file is there too,
  and these two are the only files that the run adds. Both names use the base name of
  the input file, the configured language code and the result of one formatting of the
  local time with \<open>%Y%m%d_%H%M%S\<close>, which has the shape \<open>YYYYMMDD_HHMMSS\<close> for a local
  time with a four-digit year.
\<close>

theorem successful_run_output_files:
  assumes "outcome (main w a) = Returned"
  shows "let base_name = fst (splitext (basename (input a)));
             timestamp = strftime (ustr ''%Y%m%d_%H%M%S'') (localtime w);
             stem = base_name @ ustr ''_'' @ language a @ ustr ''_'' @ timestamp;
             dir = (if output_dir a = [] \<or> last (output_dir a) = sep
                    then output_dir a else output_dir a @ [sep]);
             srt = dir @ stem @ ustr ''.srt'';
             txt = dir @ stem @ ustr ''.txt''
         in output_files (trace (main w a)) = [srt, txt] \<and> srt \<noteq> txt \<and>
            final_fs (main w a) txt = Some File \<and>
            (sep \<notin> set (language a) \<longrightarrow>
               final_fs (main w a) srt = Some File \<and>
               (\<forall>p. final_fs (main w a) p = Some File \<longrightarrow>
                      p = srt \<or> p = txt \<or> fs0 w p = Some File)) \<and>
            (valid_tm (localtime w) \<longrightarrow> well_formed_timestamp timestamp)"
proof -
  let ?base = "fst (splitext (basename (input a)))"
  let ?ts = "strftime (ustr ''%Y%m%d_%H%M%S'') (localtime w)"
  let ?stem = "?base @ ustr ''_'' @ language a @ ustr ''_'' @ ?ts"
  let ?dir = "if output_dir a = [] \<or> last (output_dir a) = sep
              then output_dir a else output_dir a @ [sep]"
  let ?srt = "?dir @ ?stem @ ustr ''.srt''"
  let ?txt = "?dir @ ?stem @ ustr ''.txt''"
  have hd: "hd (?stem @ ext) \<noteq> sep" and ne: "?stem @ ext \<noteq> []" for ext
    using name_head [OF base_name_no_sep, of "input a" "language a @ ustr ''_'' @ ?ts @ ext"]
    by (simp_all add: ustr_def)
  have j: "join (output_dir a) (?stem @ ext) = ?dir @ ?stem @ ext" for ext
    using join_relative [where a = "output_dir a" and b = "?stem @ ext"] ne [of ext] hd [of ext]
    by simp
  from assms obtain fs fs1 fs2 and res :: result where r:
    "makedirs w (output_dir a) (fs0 w) = Inr fs"
    "result_writer w (ustr ''srt'') (output_dir a) res
       (join (output_dir a) (?stem @ ustr ''.srt'')) fs = Inr fs1"
    "write_text w (join (output_dir a) (?stem @ ustr ''.txt'')) fs1 = Inr fs2"
    "final_fs (main w a) = fs2"
    "output_files (trace (main w a)) =
       [join (output_dir a) (?stem @ ustr ''.srt''), join (output_dir a) (?stem @ ustr ''.txt'')]"
    by (rule returned_run)
  have files: "output_files (trace (main w a)) = [?srt, ?txt]"
    using r(5) by (simp only: j)
  have d: "?srt \<noteq> ?txt" by (simp add: ustr_def)
  have fs2: "fs2 = fs1(?txt \<mapsto> File)"
    using write_text_Inr [OF r(3)] by (simp only: j)
  have txt_ok: "final_fs (main w a) ?txt = Some File"
    by (simp only: r(4) fs2) simp
  have old: "fs0 w p = Some File" if "fs p = Some File" for p
    using makedirs_Inr [OF r(1)] that by blast
  have srt_ok: "final_fs (main w a) ?srt = Some File \<and>
             (\<forall>p. final_fs (main w a) p = Some File \<longrightarrow>
                    p = ?srt \<or> p = ?txt \<or> fs0 w p = Some File)"
    if l: "sep \<notin> set (language a)"
  proof -
    have "join (output_dir a)
            (fst (splitext (basename (join (output_dir a) (?stem @ ustr ''.srt'')))) @
             ustr ''.'' @ ustr ''srt'') =
          join (output_dir a) (?stem @ ustr ''.srt'')"
      using writer_target [OF base_name_no_sep l timestamp_no_sep,
          of "output_dir a" "input a" "localtime w"]
      by simp
    with result_writer_Inr [OF r(2)] have fs1: "fs1 = fs(?srt \<mapsto> File)"
      by (simp only: j)
    show ?thesis
      using old d by (auto simp only: r(4) fs2 fs1 fun_upd_apply split: if_splits)
  qed
  show ?thesis
    unfolding Let_def
    using files d txt_ok srt_ok timestamp_well_formed [of "localtime w"] by blast
qed

theorem successful_run_output_files_witness:
  "outcome (main (example_env (ustr ''Y'')) (example_args (ustr ''movie.mp4''))) = Returned \<and>
   output_files (trace (main (example_env (ustr ''Y'')) (example_args (ustr ''movie.mp4'')))) =
     [ustr ''output/movie_ja_20240309_070500.srt'', ustr ''output/movie_ja_20240309_070500.txt''] \<and>
   sep \<notin> set (language (example_args (ustr ''movie.mp4''))) \<and>
   final_fs (main (example_env (ustr ''Y'')) (example_args (ustr ''movie.mp4'')))
     (ustr ''output/movie_ja_20240309_070500.srt'') = Some File \<and>
   final_fs (main (example_env (ustr ''Y'')) (example_args (ustr ''movie.mp4'')))
     (ustr ''output/movie_ja_20240309_070500.txt'') = Some File \<and>
   fs0 (example_env (ustr ''Y'')) (ustr ''output/movie_ja_20240309_070500.srt'') = None \<and>
   fs0 (example_env (ustr ''Y'')) (ustr ''output/movie_ja_20240309_070500.txt'') = None \<and>
   valid_tm (localtime (example_env (ustr ''Y''))) \<and>
   well_formed_timestamp (ustr ''20240309_070500'')"
proof -
  have h: "outcome (main (example_env (ustr ''Y'')) (example_args (ustr ''movie.mp4''))) = Returned"
    by (rule example_completed)
  have v: "valid_tm (localtime (example_env (ustr ''Y'')))"
    by (rule example_valid_tm)
  have l: "sep \<notin> set (language (example_args (ustr ''movie.mp4'')))"
    by (simp add: example_defs ustr_def sep_def)
  have b: "fst (splitext (basename (input (example_args (ustr ''movie.mp4''))))) = ustr ''movie''"
    using example_base_name by (simp add: example_defs)
  have t: "strftime (ustr ''%Y%m%d_%H%M%S'') (localtime (example_env (ustr ''Y''))) =
           ustr ''20240309_070500''"
    using example_timestamp by (simp add: example_defs)
  have n: "fs0 (example_env (ustr ''Y'')) (ustr ''output/movie_ja_20240309_070500.srt'') = None"
    "fs0 (example_env (ustr ''Y'')) (ustr ''output/movie_ja_20240309_070500.txt'') = None"
    by (simp_all add: example_defs ustr_def)
  have p: "(if output_dir (example_args (ustr ''movie.mp4'')) = [] \<or>
               last (output_dir (example_args (ustr ''movie.mp4''))) = sep
            then output_dir (example_args (ustr ''movie.mp4''))
            else output_dir (example_args (ustr ''movie.mp4'')) @ [sep]) @
           (ustr ''movie'' @ ustr ''_'' @ language (example_args (ustr ''movie.mp4'')) @
            ustr ''_'' @ ustr ''20240309_070500'') @ ustr ext =
           ustr ''output/movie_ja_20240309_070500'' @ ustr ext" for ext
    by (simp add: example_defs ustr_def sep_def)
  have q: "ustr ''output/movie_ja_20240309_070500'' @ ustr ''.srt'' =
             ustr ''output/movie_ja_20240309_070500.srt''"
          "ustr ''output/movie_ja_20240309_070500'' @ ustr ''.txt'' =
             ustr ''output/movie_ja_20240309_070500.txt''"
    by (simp_all add: ustr_def)
  from successful_run_output_files [OF h] h v l n show ?thesis
    unfolding Let_def b t p q by simp
qed

text \<open>
  Claim C10. Whenever the input file exists, the creation of the output directory is
  the first thing the run does, so it comes before the confirmation prompt; a run that
  ends with the operator cancelling leaves the output directory in place. The creation
  is idempotent: on a directory that is already there it succeeds and changes nothing.
\<close>

theorem output_dir_created_before_prompt:
  assumes "path_exists (fs0 w) (input a)"
  shows "(\<exists>post. trace (main w a) = MakeDirs (output_dir a) # post) \<and>
    (\<forall>pre post. trace (main w a) = pre @ Prompt # post \<longrightarrow> MakeDirs (output_dir a) \<in> set pre) \<and>
    (outcome (main w a) = Exit 0 \<longrightarrow> final_fs (main w a) (output_dir a) = Some Dir) \<and>
    (fs0 w (output_dir a) = Some Dir \<longrightarrow> makedirs w (output_dir a) (fs0 w) = Inr (fs0 w))"
proof -
  from assms obtain post where t: "trace (main w a) = MakeDirs (output_dir a) # post"
    by (simp add: main_def after_def)
  have "MakeDirs (output_dir a) \<in> set pre" if "trace (main w a) = pre @ Prompt # post'" for pre post'
    using that t by (cases pre) auto
  moreover have "final_fs (main w a) (output_dir a) = Some Dir" if "outcome (main w a) = Exit 0"
    using that assms
    by (auto simp: run_defs split: sum.splits option.splits node.splits if_splits)
  moreover have "makedirs w (output_dir a) (fs0 w) = Inr (fs0 w)" if "fs0 w (output_dir a) = Some Dir"
    using that by (simp add: makedirs_def)
  ultimately show ?thesis using t by blast
qed

theorem output_dir_created_before_prompt_witness:
  "path_exists (fs0 (example_env (ustr ''no''))) (input (example_args (ustr ''movie.mp4''))) \<and>
   trace (main (example_env (ustr ''no'')) (example_args (ustr ''movie.mp4''))) =
     [MakeDirs (ustr ''output''), Print Rule, Print Title, Print Rule,
      Print (InputFile (ustr ''movie.mp4'')), Print (FileSize 1024),
      Print (UsingModel (ustr ''large-v3'')), Print (Language (ustr ''ja'')),
      Print (Estimate 50), Print Rule] @ Prompt # [Print Cancelled] \<and>
   MakeDirs (output_dir (example_args (ustr ''movie.mp4''))) \<in>
     set [MakeDirs (ustr ''output''), Print Rule, Print Title, Print Rule,
      Print (InputFile (ustr ''movie.mp4'')), Print (FileSize 1024),
      Print (UsingModel (ustr ''large-v3'')), Print (Language (ustr ''ja'')),
      Print (Estimate 50), Print Rule] \<and>
   outcome (main (example_env (ustr ''no'')) (example_args (ustr ''movie.mp4''))) = Exit 0 \<and>
   final_fs (main (example_env (ustr ''no'')) (example_args (ustr ''movie.mp4'')))
     (output_dir (example_args (ustr ''movie.mp4''))) = Some Dir \<and>
   path_exists (fs0 ((example_env (ustr ''no''))\<lparr>fs0 := [ustr ''movie.mp4'' \<mapsto> File, ustr ''output'' \<mapsto> Dir]\<rparr>))
     (input (example_args (ustr ''movie.mp4''))) \<and>
   fs0 ((example_env (ustr ''no''))\<lparr>fs0 := [ustr ''movie.mp4'' \<mapsto> File, ustr ''output'' \<mapsto> Dir]\<rparr>)
     (output_dir (example_args (ustr ''movie.mp4''))) = Some Dir \<and>
   makedirs ((example_env (ustr ''no''))\<lparr>fs0 := [ustr ''movie.mp4'' \<mapsto> File, ustr ''output'' \<mapsto> Dir]\<rparr>)
     (output_dir (example_args (ustr ''movie.mp4'')))
     [ustr ''movie.mp4'' \<mapsto> File, ustr ''output'' \<mapsto> Dir] =
   Inr [ustr ''movie.mp4'' \<mapsto> File, ustr ''output'' \<mapsto> Dir]"
proof -
  let ?w = "example_env (ustr ''no'')"
  let ?a = "example_args (ustr ''movie.mp4'')"
  let ?w' = "?w\<lparr>fs0 := [ustr ''movie.mp4'' \<mapsto> File, ustr ''output'' \<mapsto> Dir]\<rparr>"
  have h: "path_exists (fs0 ?w) (input ?a)"
    by (rule example_input_exists)
  have h': "path_exists (fs0 ?w') (input ?a)"
    by (simp add: example_defs path_exists_def ustr_def)
  have d': "fs0 ?w' (output_dir ?a) = Some Dir"
    by (simp add: example_defs)
  have t: "trace (main ?w ?a) =
     [MakeDirs (ustr ''output''), Print Rule, Print Title, Print Rule,
      Print (InputFile (ustr ''movie.mp4'')), Print (FileSize 1024),
      Print (UsingModel (ustr ''large-v3'')), Print (Language (ustr ''ja'')),
      Print (Estimate 50), Print Rule] @ Prompt # [Print Cancelled]"
    by (simp add: example_declined)
  have e: "outcome (main ?w ?a) = Exit 0"
    by (simp add: example_declined)
  note c = output_dir_created_before_prompt [OF h]
  note c' = output_dir_created_before_prompt [OF h']
  from c t have "MakeDirs (output_dir ?a) \<in>
     set [MakeDirs (ustr ''output''), Print Rule, Print Title, Print Rule,
      Print (InputFile (ustr ''movie.mp4'')), Print (FileSize 1024),
      Print (UsingModel (ustr ''large-v3'')), Print (Language (ustr ''ja'')),
      Print (Estimate 50), Print Rule]"
    by blast
  moreover from c e have "final_fs (main ?w ?a) (output_dir ?a) = Some Dir"
    by blast
  moreover from c' d' have "makedirs ?w' (output_dir ?a) (fs0 ?w') = Inr (fs0 ?w')"
    by blast
  then have "makedirs ?w' (output_dir ?a) [ustr ''movie.mp4'' \<mapsto> File, ustr ''output'' \<mapsto> Dir] =
    Inr [ustr ''movie.mp4'' \<mapsto> File, ustr ''output'' \<mapsto> Dir]"
    by simp
  ultimately show ?thesis using h h' d' t e by blast
qed

end
